theory Spec2Isabelle
  imports Main
begin


section \<open>JavaScript values and objects\<close>

text \<open>
  The controller of \<^verbatim>\<open>lib/robot.js\<close> is a JavaScript object whose connection, device
  and command tables are plain objects (\<^verbatim>\<open>{}\<close>). Three facts of the language matter
  for what the code does and are written out here:
  \<^item> the own keys of an object are enumerated (\<^verbatim>\<open>for ... in\<close>, \<^verbatim>\<open>Object.keys\<close>) with
    the array-index keys first, in ascending numeric order, and the other keys after
    them in creation order;
  \<^item> a read \<^verbatim>\<open>obj[k]\<close> of a plain object falls back to the members inherited from
    \<^verbatim>\<open>Object.prototype\<close>;
  \<^item> conditions test truthiness, not equality with \<^verbatim>\<open>true\<close>.
\<close>

subsection \<open>Decimal numerals\<close>

definition digit_char :: "nat \<Rightarrow> char" where
  "digit_char d = ''0123456789'' ! d"

definition is_digit :: "char \<Rightarrow> bool" where
  "is_digit c = (c \<in> set ''0123456789'')"

definition digit_val :: "char \<Rightarrow> nat" where
  "digit_val c = of_char c - 48"

text \<open>The string a number concatenates as (\<^verbatim>\<open>name + "-" + n\<close>).\<close>

fun string_of_nat :: "nat \<Rightarrow> string" where
  "string_of_nat n =
     (if n < 10 then [digit_char n] else string_of_nat (n div 10) @ [digit_char (n mod 10)])"

declare string_of_nat.simps [simp del]

definition nat_of_string :: "string \<Rightarrow> nat" where
  "nat_of_string s = foldl (\<lambda>a c. 10 * a + digit_val c) 0 s"

text \<open>
  An array index is the canonical decimal numeral of a number below \<open>2^32 - 1\<close>.
\<close>

definition is_array_index :: "string \<Rightarrow> bool" where
  "is_array_index s =
     (if s = [] then False
      else if \<not> list_all is_digit s then False
      else if hd s = CHR ''0'' \<and> s \<noteq> ''0'' then False
      else nat_of_string s < 4294967295)"

subsection \<open>Objects\<close>

text \<open>An object is the list of its own enumerable properties in creation order.\<close>

type_synonym 'v jsobj = "(string \<times> 'v) list"

definition own_entries :: "'v jsobj \<Rightarrow> (string \<times> 'v) list" where
  "own_entries obj =
     sort_key (\<lambda>p. nat_of_string (fst p)) (filter (\<lambda>p. is_array_index (fst p)) obj)
     @ filter (\<lambda>p. \<not> is_array_index (fst p)) obj"

text \<open>\<^verbatim>\<open>Object.keys(obj)\<close>, and the order of \<^verbatim>\<open>for (k in obj)\<close>.\<close>

definition own_keys :: "'v jsobj \<Rightarrow> string list" where
  "own_keys obj = map fst (own_entries obj)"

definition own_values :: "'v jsobj \<Rightarrow> 'v list" where
  "own_values obj = map snd (own_entries obj)"

text \<open>\<^verbatim>\<open>obj[k] = v\<close>: an existing property keeps its place, a new one is created last.\<close>

fun obj_put :: "string \<Rightarrow> 'v \<Rightarrow> 'v jsobj \<Rightarrow> 'v jsobj" where
  "obj_put k v [] = [(k, v)]"
| "obj_put k v (p # ps) = (if fst p = k then (k, v) # ps else p # obj_put k v ps)"

definition object_prototype_names :: "string list" where
  "object_prototype_names =
     [''constructor'', ''__defineGetter__'', ''__defineSetter__'', ''hasOwnProperty'',
      ''__lookupGetter__'', ''__lookupSetter__'', ''isPrototypeOf'',
      ''propertyIsEnumerable'', ''toString'', ''valueOf'', ''__proto__'',
      ''toLocaleString'']"

text \<open>The result of the read \<^verbatim>\<open>obj[k]\<close> on a plain object.\<close>

datatype 'v lookup = Own 'v | Inherited string | Missing

definition obj_get :: "'v jsobj \<Rightarrow> string \<Rightarrow> 'v lookup" where
  "obj_get obj k =
     (case map_of obj k of
        Some v \<Rightarrow> Own v
      | None \<Rightarrow> if k \<in> set object_prototype_names then Inherited k else Missing)"

text \<open>
  Truthiness of \<^verbatim>\<open>obj[k]\<close> when the own values are objects: handles and inherited
  members are truthy, \<^verbatim>\<open>undefined\<close> is not.
\<close>

definition present :: "'v lookup \<Rightarrow> bool" where
  "present l = (case l of Missing \<Rightarrow> False | _ \<Rightarrow> True)"

subsection \<open>Values\<close>

datatype jsval =
    VUndefined
  | VNull
  | VBool bool
  | VNum nat
  | VStr string
  | VList "string list"
  | VMap "(string \<times> jsval) list"
  | VFun string jsval
  | VConn string
  | VDev string
  | VTable string

text \<open>
  \<open>VNum\<close> is a non-negative integer, \<open>VList\<close> an array of strings, \<open>VMap m\<close> a mapping with the own properties \<open>m\<close>,
  \<open>VFun f ret\<close> a callable named \<open>f\<close> that returns \<open>ret\<close> when it is invoked,
  \<open>VConn n\<close> and \<open>VDev n\<close> the connection and device handle registered as \<open>n\<close>,
  \<open>VTable t\<close> the object that \<^verbatim>\<open>initRobot\<close> creates for the table \<open>t\<close> of the controller.
\<close>

fun truthy :: "jsval \<Rightarrow> bool" where
  "truthy VUndefined = False"
| "truthy VNull = False"
| "truthy (VBool b) = b"
| "truthy (VNum n) = (n \<noteq> 0)"
| "truthy (VStr s) = (s \<noteq> [])"
| "truthy _ = True"

fun isFunction :: "jsval \<Rightarrow> bool" where
  "isFunction (VFun f ret) = True"
| "isFunction _ = False"

text \<open>
  The string a value concatenates as. The source text of a function and the
  \<^verbatim>\<open>toString\<close> of a handle are not modelled: a function gives \<open>''function''\<close>, an
  object the default \<open>''[object Object]''\<close>.
\<close>

fun join_commas :: "string list \<Rightarrow> string" where
  "join_commas [] = []"
| "join_commas [x] = x"
| "join_commas (x # y # ys) = x @ '','' @ join_commas (y # ys)"

fun to_string :: "jsval \<Rightarrow> string" where
  "to_string VUndefined = ''undefined''"
| "to_string VNull = ''null''"
| "to_string (VBool b) = (if b then ''true'' else ''false'')"
| "to_string (VNum n) = string_of_nat n"
| "to_string (VStr s) = s"
| "to_string (VList xs) = join_commas xs"
| "to_string (VFun f ret) = ''function''"
| "to_string _ = ''[object Object]''"

section \<open>Handles, events and the controller\<close>

text \<open>
  Adaptors and drivers are external collaborators. What one of their operations does
  with the completion callback it is given is the input of the model:
  it calls back before it returns, it calls back later (from the event loop), it
  throws, or it never calls back.
\<close>

datatype behaviour =
    CallsBack "string option"
  | Later "string option"
  | Throws string
  | Silent

record connection_handle =
  cname :: string
  connected :: bool
  host :: jsval
  port :: jsval
  connect :: behaviour
  disconnect :: behaviour

text \<open>What \<^verbatim>\<open>device.connection\<close> holds once \<^verbatim>\<open>device()\<close> has resolved it.\<close>

datatype conn_ref = ConnRef string | InheritedRef string | UndefinedRef

record device_handle =
  dname :: string
  started :: bool
  pin :: jsval
  dconnection :: conn_ref
  dstart :: behaviour
  dhalt :: behaviour

text \<open>The options \<^verbatim>\<open>connection(name, conn)\<close> and \<^verbatim>\<open>device(name, device)\<close> receive.\<close>

record conn_opts =
  adaptor :: string
  o_host :: jsval
  o_port :: jsval
  o_connect :: behaviour
  o_disconnect :: behaviour

record dev_opts =
  driver :: string
  o_pin :: jsval
  o_connection :: "string option"
  o_start :: behaviour
  o_halt :: behaviour

datatype payload = Controller | Err string

datatype event =
    Logged string
  | Sigint
  | Emitted string payload
  | Work string
  | ErrorHandler string
  | AdaptorConnect string
  | AdaptorDisconnect string
  | DriverStart string
  | DriverHalt string
  | StartCallback "string option" "nat list"
  | HaltCallback

text \<open>
  \<open>Work f\<close> is the call \<^verbatim>\<open>this.work.call(this, this)\<close> of the routine \<open>f\<close>;
  \<open>ErrorHandler e\<close> the call \<^verbatim>\<open>this.error.call(this, e)\<close>;
  \<open>Emitted n p\<close> the dispatch \<^verbatim>\<open>this.emit(n, p)\<close>; \<open>Sigint\<close> the call
  \<^verbatim>\<open>process.emit("SIGINT")\<close>; the adaptor and driver events are the calls of
  \<^verbatim>\<open>connect\<close>, \<^verbatim>\<open>disconnect\<close>, \<^verbatim>\<open>start\<close> and \<^verbatim>\<open>halt\<close> on the handle of that name;
  \<open>StartCallback err results\<close> and \<open>HaltCallback\<close> are the calls of the callbacks
  given to \<^verbatim>\<open>start\<close> and \<^verbatim>\<open>halt\<close>.
\<close>

text \<open>
  A method plucked from a handle (\<^verbatim>\<open>_.pluck(this.devices, "halt")\<close>): the call it is,
  and what it does with the callback it is given.
\<close>

type_synonym operation = "event \<times> behaviour"

text \<open>
  The callback \<^verbatim>\<open>halt\<close> is given: the caller's (\<open>HaltUser True\<close>), none
  (\<open>HaltUser False\<close>, the empty function), or the closure of \<^verbatim>\<open>start\<close> that reports
  the start error \<open>e\<close> (\<open>HaltReport e\<close>).
\<close>

datatype after_halt = HaltUser bool | HaltReport string

text \<open>
  The barriers: each is one call of \<^verbatim>\<open>_.parallel\<close>, named after what it joins and
  carrying what its completion function has captured (whether \<^verbatim>\<open>start\<close> was given
  a callback, whether the second element of the list \<^verbatim>\<open>start\<close> gave to \<^verbatim>\<open>_.series\<close>
  is a function, and the results of the earlier phases; the callback of \<^verbatim>\<open>halt\<close> and
  the disconnect units plucked when \<^verbatim>\<open>halt\<close> began).
\<close>

datatype join_kind =
    JStartConnections bool bool
  | JStartDevices bool "nat list"
  | JHaltDevices after_halt "operation list"
  | JHaltConnections after_halt

record join =
  kind :: join_kind
  total :: nat
  completed :: nat
  jerror :: "string option"

text \<open>
  The controller. \<open>props\<close> is the name space of the object \<^verbatim>\<open>this\<close>, its own
  properties by name: the data properties the code reads or assigns (\<^verbatim>\<open>name\<close>,
  \<^verbatim>\<open>running\<close>, \<^verbatim>\<open>work\<close>, \<^verbatim>\<open>error\<close>, \<^verbatim>\<open>events\<close>, every configuration key merged by
  the constructor), the three tables \<^verbatim>\<open>connections\<close>, \<^verbatim>\<open>devices\<close> and \<^verbatim>\<open>commands\<close>,
  the methods, which the loop at the head of the constructor binds and assigns to the
  object under their names, and every handle assigned by
  \<^verbatim>\<open>this[handle.name] = handle\<close>. A handle replaces whatever the name held: a data
  property, a table or a method.
  The fields \<open>connections\<close>, \<open>devices\<close> and \<open>commands\<close> are the contents of the three
  table objects. What the code does with a handle where it expects a table depends on
  the handle's own members and on helpers that are not among the sources: the model
  is of controllers none of whose handles is named like a table.
  \<open>trace\<close> records every call the controller makes on a collaborator, in
  order. \<open>joins\<close> are the barriers created so far and \<open>pending\<close> the completions that
  adaptors and drivers have scheduled and the event loop has not delivered yet.
\<close>

record robot =
  props :: "string \<Rightarrow> jsval option"
  connections :: "connection_handle jsobj"
  devices :: "device_handle jsobj"
  commands :: "jsval jsobj"
  listener_count :: "string \<Rightarrow> nat"
  workMode :: "string option"
  trace :: "event list"
  joins :: "join list"
  pending :: "(nat \<times> string option) list"

definition this_get :: "robot \<Rightarrow> string \<Rightarrow> jsval" where
  "this_get r n = (case props r n of Some v \<Rightarrow> v | None \<Rightarrow> VUndefined)"

definition this_set :: "string \<Rightarrow> jsval \<Rightarrow> robot \<Rightarrow> robot" where
  "this_set n v r = r\<lparr>props := (props r)(n \<mapsto> v)\<rparr>"

text \<open>
  The bound method the constructor assigns under the name \<open>m\<close>, as a value. The
  functions of this theory are the bodies of the methods; \<open>this_method r m\<close> says that
  \<^verbatim>\<open>this[m]\<close> is still that method, so that a call \<^verbatim>\<open>this.m(...)\<close> runs the body.
  When a handle has replaced it the call throws a \<^verbatim>\<open>TypeError\<close>, whose message names
  the expression that was called.
\<close>

definition bound_method :: "string \<Rightarrow> jsval" where
  "bound_method m = VFun (''prototype.'' @ m) VUndefined"

definition this_method :: "robot \<Rightarrow> string \<Rightarrow> bool" where
  "this_method r m = (this_get r m = bound_method m)"

definition not_a_function :: "string \<Rightarrow> string" where
  "not_a_function expr = expr @ '' is not a function''"

definition record_event :: "event \<Rightarrow> robot \<Rightarrow> robot" where
  "record_event e r = r\<lparr>trace := trace r @ [e]\<rparr>"

text \<open>
  \<^verbatim>\<open>Robot.prototype.log\<close>: one line \<^verbatim>\<open>[<name>] - <message>\<close> for the logger. The
  start sequence below looks \<^verbatim>\<open>this.log\<close> up before it calls it. The registration
  methods and \<^verbatim>\<open>halt\<close> are described for a controller whose \<^verbatim>\<open>log\<close> is still
  its method: there the call is this body.
\<close>

definition log :: "string \<Rightarrow> robot \<Rightarrow> robot" where
  "log str r =
     record_event (Logged (''['' @ to_string (this_get r ''name'') @ ''] - '' @ str)) r"

section \<open>Registration\<close>

text \<open>
  Modelled from the spec: \<^verbatim>\<open>Utils.makeUnique\<close> (\<^verbatim>\<open>lib/utils.js\<close>) is not among the
  sources. The spec: on collision, generate a unique name by appending \<^verbatim>\<open>-1\<close>,
  \<^verbatim>\<open>-2\<close>, ... to the original until no collision remains.
\<close>

definition suffixed :: "string \<Rightarrow> nat \<Rightarrow> string" where
  "suffixed name n = name @ ''-'' @ string_of_nat n"

text \<open>
  Modelled from the spec: the search for the first suffix that does not collide,
  from \<open>n\<close> upwards.
\<close>

function makeUnique_from :: "string \<Rightarrow> string list \<Rightarrow> nat \<Rightarrow> string" where
  "makeUnique_from name arr n =
     (if suffixed name n \<in> set arr then makeUnique_from name arr (Suc n)
      else suffixed name n)"
  by pat_completeness auto

lemma digit_val_digit_char: "d < 10 \<Longrightarrow> digit_val (digit_char d) = d"
proof -
  assume "d < 10"
  then have "d \<in> {0, 1, 2, 3, 4, 5, 6, 7, 8, 9}"
    by auto
  then show ?thesis
    by (auto simp: digit_val_def digit_char_def)
qed

lemma nat_of_string_snoc: "nat_of_string (s @ [c]) = 10 * nat_of_string s + digit_val c"
  by (simp add: nat_of_string_def)

lemma nat_of_string_of_nat: "nat_of_string (string_of_nat n) = n"
proof (induction n rule: string_of_nat.induct)
  case (1 n)
  show ?case
  proof (cases "n < 10")
    case True
    then show ?thesis
      by (subst string_of_nat.simps) (simp add: nat_of_string_def digit_val_digit_char)
  next
    case False
    then have "nat_of_string (string_of_nat (n div 10)) = n div 10"
      using 1 by simp
    with False show ?thesis
      by (subst string_of_nat.simps) (simp add: nat_of_string_snoc digit_val_digit_char)
  qed
qed

lemma string_of_nat_inj: "string_of_nat m = string_of_nat n \<Longrightarrow> m = n"
  by (metis nat_of_string_of_nat)

lemma suffixed_inj: "suffixed name m = suffixed name n \<Longrightarrow> m = n"
  by (simp add: suffixed_def string_of_nat_inj)

lemma finite_taken: "finite {k. suffixed name k \<in> set arr}"
proof -
  have "inj (suffixed name)"
    by (rule injI) (rule suffixed_inj)
  then have "finite (suffixed name -` set arr)"
    by (intro finite_vimageI) simp_all
  then show ?thesis
    by (simp add: vimage_def)
qed

termination makeUnique_from
proof (relation "measure (\<lambda>(name, arr, n). card {k. n \<le> k \<and> suffixed name k \<in> set arr})")
  show "wf (measure (\<lambda>(name, arr, n). card {k. n \<le> k \<and> suffixed name k \<in> set arr}))"
    by simp
next
  fix name :: string and arr :: "string list" and n :: nat
  assume taken: "suffixed name n \<in> set arr"
  let ?A = "{k. Suc n \<le> k \<and> suffixed name k \<in> set arr}"
  let ?B = "{k. n \<le> k \<and> suffixed name k \<in> set arr}"
  have fin: "finite ?B"
    by (rule finite_subset [OF _ finite_taken [of name arr]]) auto
  have "n \<in> ?B" and "n \<notin> ?A" and "?A \<subseteq> ?B"
    using taken by auto
  then have "?A \<subset> ?B"
    by blast
  then have "card ?A < card ?B"
    using fin by (rule psubset_card_mono [rotated])
  then show "((name, arr, Suc n), (name, arr, n))
      \<in> measure (\<lambda>(name, arr, n). card {k. n \<le> k \<and> suffixed name k \<in> set arr})"
    by simp
qed

declare makeUnique_from.simps [simp del]


text \<open>Modelled from the spec: \<^verbatim>\<open>Utils.makeUnique(name, arr)\<close>, the suffixes from 1.\<close>

definition makeUnique :: "string \<Rightarrow> string list \<Rightarrow> string" where
  "makeUnique name arr = makeUnique_from name arr 1"

text \<open>
  Modelled from the spec: \<^verbatim>\<open>initializer\<close> (\<^verbatim>\<open>lib/initializer.js\<close>) is not among the
  sources. The spec: a connection handle wraps one adapter instance and tracks a
  connected flag and its identity (name, host, port); a device handle wraps one driver
  instance and tracks a started flag, its identity (name, pin) and a reference to one
  connection handle. A new handle is neither connected nor started.
\<close>

definition initializer_adaptor :: "string \<Rightarrow> conn_opts \<Rightarrow> connection_handle" where
  "initializer_adaptor nm conn =
     \<lparr>cname = nm, connected = False, host = o_host conn, port = o_port conn,
      connect = o_connect conn, disconnect = o_disconnect conn\<rparr>"

text \<open>Modelled from the spec: \<^verbatim>\<open>initializer("driver", device)\<close>.\<close>

definition initializer_driver :: "string \<Rightarrow> conn_ref \<Rightarrow> dev_opts \<Rightarrow> device_handle" where
  "initializer_driver nm ref dv =
     \<lparr>dname = nm, started = False, pin = o_pin dv, dconnection = ref,
      dstart = o_start dv, dhalt = o_halt dv\<rparr>"

definition quoted :: "string \<Rightarrow> string" where
  "quoted s = [CHR 0x27] @ s @ [CHR 0x27]"

text \<open>\<^verbatim>\<open>Robot.prototype.connection\<close>.\<close>

definition connection :: "string \<Rightarrow> conn_opts \<Rightarrow> robot \<Rightarrow> robot" where
  "connection name conn r =
     (if present (obj_get (connections r) name)
      then
        (let original = name;
             nm = makeUnique original (own_keys (connections r));
             r1 = log (''Connection names must be unique.'' @
                       ''Renaming '' @ quoted original @ '' to '' @ quoted nm) r
         in r1\<lparr>connections := obj_put nm (initializer_adaptor nm conn) (connections r1)\<rparr>)
      else r\<lparr>connections := obj_put name (initializer_adaptor name conn) (connections r)\<rparr>)"

text \<open>
  \<^verbatim>\<open>Robot.prototype.device\<close>, in three steps as in the source: the name, the connection
  reference, the registration. \<^verbatim>\<open>process.emit("SIGINT")\<close> calls the listeners of the
  process and returns; the model is of the executions in which it returns.
\<close>

definition device_name :: "string \<Rightarrow> robot \<Rightarrow> string \<times> robot" where
  "device_name name r =
     (if present (obj_get (devices r) name)
      then
        (let original = name;
             nm = makeUnique original (own_keys (devices r))
         in (nm, log (''Device names must be unique.'' @
                      ''Renaming '' @ quoted original @ '' to '' @ quoted nm) r))
      else (name, r))"

definition device_connection :: "string option \<Rightarrow> robot \<Rightarrow> conn_ref \<times> robot" where
  "device_connection c r =
     (case c of
        Some cn \<Rightarrow>
          (case obj_get (connections r) cn of
             Missing \<Rightarrow>
               (UndefinedRef,
                record_event Sigint
                  (log (''No connection found with the name '' @ cn @ ''.'' @ [CHR 0x0A]) r))
           | Own h \<Rightarrow> (ConnRef cn, r)
           | Inherited k \<Rightarrow> (InheritedRef k, r))
      | None \<Rightarrow>
          (case own_keys (connections r) of
             [] \<Rightarrow> (UndefinedRef, r)
           | k # ks \<Rightarrow> (ConnRef k, r)))"

definition device :: "string \<Rightarrow> dev_opts \<Rightarrow> robot \<Rightarrow> robot" where
  "device name dv r =
     (let (nm, r1) = device_name name r;
          (ref, r2) = device_connection (o_connection dv) r1
      in r2\<lparr>devices := obj_put nm (initializer_driver nm ref dv) (devices r2)\<rparr>)"

section \<open>The life cycle\<close>

subsection \<open>Exceptions and callbacks\<close>

text \<open>
  A call either returns or throws; both leave a state behind.
\<close>

datatype outcome = Normal robot | Thrown string robot

fun state_of :: "outcome \<Rightarrow> robot" where
  "state_of (Normal r) = r"
| "state_of (Thrown e r) = r"

definition and_then :: "outcome \<Rightarrow> (robot \<Rightarrow> outcome) \<Rightarrow> outcome" where
  "and_then x f = (case x of Normal r \<Rightarrow> f r | Thrown e r \<Rightarrow> Thrown e r)"

text \<open>
  A call \<^verbatim>\<open>this.m(...)\<close>, written \<open>expr\<close> in the source: the body, when \<^verbatim>\<open>this[m]\<close> is
  still the method, and a \<^verbatim>\<open>TypeError\<close> otherwise.
\<close>

definition call_method :: "string \<Rightarrow> string \<Rightarrow> robot \<Rightarrow> (robot \<Rightarrow> outcome) \<Rightarrow> outcome" where
  "call_method expr m r body =
     (if this_method r m then body r else Thrown (not_a_function expr) r)"

text \<open>\<^verbatim>\<open>if (err)\<close>: an error is a non-empty string.\<close>

definition is_error :: "string option \<Rightarrow> bool" where
  "is_error err = (case err of None \<Rightarrow> False | Some e \<Rightarrow> e \<noteq> [])"

text \<open>
  An operation of an adaptor or a driver, called with the callback of barrier \<open>j\<close>.
  \<open>cb\<close> is what calling that callback does; \<open>wrap\<close> is what the callback makes of the
  error it is passed (the identity, or the constant \<open>None\<close> of \<^verbatim>\<open>cb.bind(null, null)\<close>).
\<close>

definition call_with_callback ::
  "behaviour \<Rightarrow> (string option \<Rightarrow> string option) \<Rightarrow> nat
     \<Rightarrow> (string option \<Rightarrow> robot \<Rightarrow> outcome) \<Rightarrow> robot \<Rightarrow> outcome" where
  "call_with_callback b wrap j cb r =
     (case b of
        CallsBack e \<Rightarrow> cb (wrap e) r
      | Later e \<Rightarrow> Normal (r\<lparr>pending := pending r @ [(j, wrap e)]\<rparr>)
      | Throws x \<Rightarrow> Thrown x r
      | Silent \<Rightarrow> Normal r)"

subsection \<open>The join helpers\<close>

text \<open>
  Modelled from the spec: \<^verbatim>\<open>_.parallel\<close> and \<^verbatim>\<open>_.series\<close> (\<^verbatim>\<open>lib/utils/helpers.js\<close>)
  are not among the sources. The spec: all units are invoked; the phase completes when
  all units have called back; if any unit reports an error, the first such error is
  the phase result, but all units still run to completion. The spec describes no
  handler inside the join, and names the case that invoking the join machinery throws
  synchronously: an exception of a unit leaves the join as it leaves any call.
  A phase result is the number of results the units have passed.
\<close>

definition join_callback ::
  "(string option \<Rightarrow> nat \<Rightarrow> robot \<Rightarrow> outcome) \<Rightarrow> nat \<Rightarrow> string option \<Rightarrow> robot \<Rightarrow> outcome" where
  "join_callback done j err r =
     (if length (joins r) \<le> j then Normal r
      else
        (let jn = joins r ! j;
             jn' = jn\<lparr>completed := Suc (completed jn),
                      jerror := (if is_error (jerror jn) then jerror jn
                                 else if is_error err then err else None)\<rparr>;
             r' = r\<lparr>joins := (joins r)[j := jn']\<rparr>
         in if completed jn' = total jn' then done (jerror jn') (total jn') r'
            else Normal r'))"

text \<open>
  Modelled from the spec: the loop of \<^verbatim>\<open>_.parallel\<close> that invokes every unit, in
  order; it ends where a unit throws.
\<close>

fun run_units :: "('u \<Rightarrow> robot \<Rightarrow> outcome) \<Rightarrow> 'u list \<Rightarrow> robot \<Rightarrow> outcome" where
  "run_units call [] r = Normal r"
| "run_units call (u # us) r = and_then (call u r) (run_units call us)"

text \<open>
  Modelled from the spec: \<^verbatim>\<open>_.parallel(units, done)\<close>. A new barrier counts the
  units; with no unit the phase is complete at once.
\<close>

definition parallel ::
  "join_kind \<Rightarrow> 'u list \<Rightarrow> (nat \<Rightarrow> 'u \<Rightarrow> robot \<Rightarrow> outcome)
     \<Rightarrow> (string option \<Rightarrow> nat \<Rightarrow> robot \<Rightarrow> outcome) \<Rightarrow> robot \<Rightarrow> outcome" where
  "parallel k units call done r =
     (let j = length (joins r);
          r1 = r\<lparr>joins := joins r @
                 [\<lparr>kind = k, total = length units, completed = 0, jerror = None\<rparr>]\<rparr>
      in if units = [] then done None 0 r1 else run_units (call j) units r1)"

subsection \<open>Halting\<close>

text \<open>
  The callback of \<^verbatim>\<open>halt\<close>. For \<open>HaltReport err\<close> it is the closure of \<^verbatim>\<open>start\<close>:
  \<^verbatim>\<open>if (_.isFunction(this.error)) { this.error.call(this, err); }
  if (this.listeners("error").length) { this.emit("error", err); }\<close>
\<close>

definition after_halt_cb :: "after_halt \<Rightarrow> robot \<Rightarrow> outcome" where
  "after_halt_cb ah r =
     (case ah of
        HaltUser supplied \<Rightarrow> Normal (if supplied then record_event HaltCallback r else r)
      | HaltReport err \<Rightarrow>
          (let r1 = (if isFunction (this_get r ''error'')
                     then record_event (ErrorHandler err) r else r)
           in call_method ''this.listeners'' ''listeners'' r1
                (\<lambda>r2. if listener_count r2 ''error'' \<noteq> 0
                      then call_method ''this.emit'' ''emit'' r2
                             (\<lambda>r3. Normal (record_event (Emitted ''error'' (Err err)) r3))
                      else Normal r2)))"

text \<open>
  \<^verbatim>\<open>function wrap(fn) { return function(cb) { fn.call(null, cb.bind(null, null)); }; }\<close>:
  whatever error \<^verbatim>\<open>fn\<close> passes to its callback, the callback of the barrier is passed
  \<^verbatim>\<open>null\<close>.
\<close>

definition wrap ::
  "operation \<Rightarrow> nat \<Rightarrow> (string option \<Rightarrow> robot \<Rightarrow> outcome) \<Rightarrow> robot \<Rightarrow> outcome" where
  "wrap fn j cb r = call_with_callback (snd fn) (\<lambda>e. None) j cb (record_event (fst fn) r)"

text \<open>\<^verbatim>\<open>_.parallel(connections, callback)\<close>, the completion of the device barrier.\<close>

definition halt_connections :: "after_halt \<Rightarrow> operation list \<Rightarrow> robot \<Rightarrow> outcome" where
  "halt_connections callback conns r =
     parallel (JHaltConnections callback) conns
       (\<lambda>j fn. wrap fn j (join_callback (\<lambda>err n. after_halt_cb callback) j))
       (\<lambda>err n. after_halt_cb callback) r"

text \<open>
  The body of the \<^verbatim>\<open>try\<close> block of \<^verbatim>\<open>halt\<close>: the units are made from the
  \<^verbatim>\<open>halt\<close> of every device and the \<^verbatim>\<open>disconnect\<close> of every connection, and the
  device units are run; their barrier runs the connection units.
\<close>

definition halt_join :: "after_halt \<Rightarrow> robot \<Rightarrow> outcome" where
  "halt_join callback r =
     (let devs = map (\<lambda>d. (DriverHalt (dname d), dhalt d)) (own_values (devices r));
          conns = map (\<lambda>c. (AdaptorDisconnect (cname c), disconnect c))
                    (own_values (connections r))
      in parallel (JHaltDevices callback conns) devs
           (\<lambda>j fn. wrap fn j (join_callback (\<lambda>err n. halt_connections callback conns) j))
           (\<lambda>err n. halt_connections callback conns) r)"

text \<open>\<^verbatim>\<open>Robot.prototype.halt\<close>.\<close>

definition halt :: "after_halt \<Rightarrow> robot \<Rightarrow> outcome" where
  "halt callback r =
     (if \<not> truthy (this_get r ''running'') then after_halt_cb callback r
      else
        (let r1 = (case halt_join callback r of
                     Normal r' \<Rightarrow> r'
                   | Thrown e r' \<Rightarrow>
                       log e (log ''An error occured while attempting to safely halt the robot'' r'))
         in Normal (this_set ''running'' (VBool False) r1)))"

subsection \<open>Starting\<close>

text \<open>
  The completion function \<^verbatim>\<open>start\<close> gives to \<^verbatim>\<open>_.series\<close>:
  \<^verbatim>\<open>function(err, results) { if (err) { ... this.halt(...) } if (_.isFunction(callback)) { callback(err, results); } }\<close>
\<close>

definition start_done :: "bool \<Rightarrow> string option \<Rightarrow> nat list \<Rightarrow> robot \<Rightarrow> outcome" where
  "start_done callback err results r =
     and_then
       (case err of
          None \<Rightarrow> Normal r
        | Some e \<Rightarrow>
            if e = [] then Normal r
            else call_method ''this.log'' ''log'' r
                   (\<lambda>r1. call_method ''this.log'' ''log''
                            (log ''An error occured while trying to start the robot:'' r1)
                      (\<lambda>r2. call_method ''this.halt'' ''halt'' (log e r2)
                               (halt (HaltReport e)))))
       (\<lambda>r'. Normal (if callback then record_event (StartCallback err results) r' else r'))"

definition set_started :: "string \<Rightarrow> robot \<Rightarrow> robot" where
  "set_started n r =
     r\<lparr>devices := map (\<lambda>p. if fst p = n then (fst p, (snd p)\<lparr>started := True\<rparr>) else p)
                     (devices r)\<rparr>"

definition set_connected :: "string \<Rightarrow> robot \<Rightarrow> robot" where
  "set_connected n r =
     r\<lparr>connections := map (\<lambda>p. if fst p = n then (fst p, (snd p)\<lparr>connected := True\<rparr>) else p)
                         (connections r)\<rparr>"

text \<open>
  A handle is an object: a unit made from it earlier reads its fields as they are when
  the unit runs.
\<close>

definition current_device :: "robot \<Rightarrow> device_handle \<Rightarrow> device_handle" where
  "current_device r d = (case map_of (devices r) (dname d) of Some d' \<Rightarrow> d' | None \<Rightarrow> d)"

definition current_connection :: "robot \<Rightarrow> connection_handle \<Rightarrow> connection_handle" where
  "current_connection r c =
     (case map_of (connections r) (cname c) of Some c' \<Rightarrow> c' | None \<Rightarrow> c)"

text \<open>\<^verbatim>\<open>Robot.prototype.startDevice\<close>; the callback is that of barrier \<open>j\<close>.\<close>

definition startDevice ::
  "device_handle \<Rightarrow> nat \<Rightarrow> (string option \<Rightarrow> robot \<Rightarrow> outcome) \<Rightarrow> robot \<Rightarrow> outcome" where
  "startDevice dev j callback r =
     (if started dev then callback None r
      else
        (let str = ''Starting device '' @ quoted (dname dev) @
                   (if truthy (pin dev) \<or> pin dev = VNum 0
                    then '' on pin '' @ to_string (pin dev) else [])
         in call_method ''log'' ''log'' r
              (\<lambda>r0. let r1 = log (str @ ''.'') r0;
                        r2 = this_set (dname dev) (VDev (dname dev)) r1;
                        r3 = record_event (DriverStart (dname dev)) r2
                    in and_then (call_with_callback (dstart dev) (\<lambda>e. e) j callback r3)
                         (\<lambda>r4. Normal (set_started (dname dev) r4)))))"

text \<open>
  Modelled from the spec: what \<^verbatim>\<open>_.series\<close> does when its second function, the
  device phase, has completed: it passes the error with the results of the phases
  before, or all results, to the completion function.
\<close>

definition series_after_devices ::
  "bool \<Rightarrow> nat list \<Rightarrow> string option \<Rightarrow> nat \<Rightarrow> robot \<Rightarrow> outcome" where
  "series_after_devices callback results err n r =
     (if is_error err then start_done callback err results r
      else start_done callback None (results @ [n]) r)"

definition startDevices :: "bool \<Rightarrow> nat list \<Rightarrow> robot \<Rightarrow> outcome" where
  "startDevices callback results r =
     call_method ''log'' ''log'' r
       (\<lambda>r0. let r1 = log ''Starting devices.'' r0
             in parallel (JStartDevices callback results) (own_values (devices r1))
                  (\<lambda>j dev s. call_method ''this.startDevice'' ''startDevice'' s
                     (startDevice (current_device s dev) j
                        (join_callback (series_after_devices callback results) j)))
                  (series_after_devices callback results) r1)"

text \<open>\<^verbatim>\<open>Robot.prototype.startConnection\<close>.\<close>

definition startConnection ::
  "connection_handle \<Rightarrow> nat \<Rightarrow> (string option \<Rightarrow> robot \<Rightarrow> outcome) \<Rightarrow> robot \<Rightarrow> outcome" where
  "startConnection conn j callback r =
     (if connected conn then callback None r
      else
        (let str = ''Starting connection '' @ quoted (cname conn) @
                   (if truthy (host conn) then '' on host '' @ to_string (host conn)
                    else if truthy (port conn) then '' on port '' @ to_string (port conn)
                    else [])
         in call_method ''this.log'' ''log'' r
              (\<lambda>r0. let r1 = log (str @ ''.'') r0;
                        r2 = this_set (cname conn) (VConn (cname conn)) r1;
                        r3 = record_event (AdaptorConnect (cname conn)) r2
                    in and_then (call_with_callback (connect conn) (\<lambda>e. e) j callback r3)
                         (\<lambda>r4. Normal (set_connected (cname conn) r4)))))"

text \<open>
  Modelled from the spec: what \<^verbatim>\<open>_.series\<close> does when its first function, the
  connection phase, has completed: on an error it calls the completion function with
  the error and no results; otherwise it runs the device phase (only after phase 1's
  barrier completes). The device phase is the second element of the list \<^verbatim>\<open>start\<close>
  made, \<^verbatim>\<open>this.startDevices\<close> as it was then: \<open>second\<close> says that it was the method,
  and an element that is not a function cannot be called.
\<close>

definition series_after_connections ::
  "bool \<Rightarrow> bool \<Rightarrow> string option \<Rightarrow> nat \<Rightarrow> robot \<Rightarrow> outcome" where
  "series_after_connections callback second err n r =
     (if is_error err then start_done callback err [] r
      else if second then startDevices callback [n] r
      else Thrown (not_a_function ''this.startDevices'') r)"

definition startConnections :: "bool \<Rightarrow> bool \<Rightarrow> robot \<Rightarrow> outcome" where
  "startConnections callback second r =
     call_method ''this.log'' ''log'' r
       (\<lambda>r0. let r1 = log ''Starting connections.'' r0
             in parallel (JStartConnections callback second) (own_values (connections r1))
                  (\<lambda>j conn s. call_method ''this.startConnection'' ''startConnection'' s
                     (startConnection (current_connection s conn) j
                        (join_callback (series_after_connections callback second) j)))
                  (series_after_connections callback second) r1)"

text \<open>\<^verbatim>\<open>Robot.prototype.startWork\<close>.\<close>

text \<open>
  The routine \<^verbatim>\<open>initRobot\<close> installs when the configuration gives none:
  \<^verbatim>\<open>function() { this.log("No work yet."); }\<close>.
\<close>

definition default_work :: jsval where
  "default_work = VFun ''No work yet.'' VUndefined"

definition startWork :: "robot \<Rightarrow> outcome" where
  "startWork r =
     call_method ''this.log'' ''log'' r
       (\<lambda>r0. call_method ''this.emit'' ''emit'' (log ''Working.'' r0)
          (\<lambda>r1. let r2 = record_event (Emitted ''ready'' Controller) r1
                in case this_get r2 ''work'' of
                     VFun f ret \<Rightarrow>
                       and_then
                         (if VFun f ret = default_work
                          then call_method ''this.log'' ''log'' (record_event (Work f) r2)
                                 (\<lambda>r3. Normal (log ''No work yet.'' r3))
                          else Normal (record_event (Work f) r2))
                         (\<lambda>r4. Normal (this_set ''running'' (VBool True) r4))
                   | _ \<Rightarrow> Thrown (not_a_function ''this.work.call'') r2))"

text \<open>
  Modelled from the spec: \<^verbatim>\<open>Utils.fetch(Config, "workMode", "async")\<close> reads a
  process-wide setting, with a default for a setting that is not there.
\<close>

definition fetch :: "string option \<Rightarrow> string \<Rightarrow> string" where
  "fetch setting dflt = (case setting of Some v \<Rightarrow> v | None \<Rightarrow> dflt)"

text \<open>
  \<^verbatim>\<open>Robot.prototype.start\<close>: the list \<^verbatim>\<open>[this.startConnections, this.startDevices]\<close> is
  made, the series is begun with its first element, and then, in the same turn, the
  local function \<^verbatim>\<open>start\<close> is called (line 264). The members are read when the list is
  made; one that is not a function then cannot be called when its turn comes.
\<close>

definition start :: "bool \<Rightarrow> robot \<Rightarrow> outcome" where
  "start callback r =
     (if truthy (this_get r ''running'') then Normal r
      else
        (let mode = fetch (workMode r) ''async'';
             second = this_method r ''startDevices''
         in and_then
              (call_method ''this.startConnections'' ''startConnections'' r
                 (startConnections callback second))
              (\<lambda>r1. if mode = ''async''
                    then call_method ''this.startWork'' ''startWork'' r1 startWork
                    else Normal r1)))"

subsection \<open>The event loop\<close>

text \<open>The completion function of a barrier, from what it has captured.\<close>

definition done_of :: "join_kind \<Rightarrow> string option \<Rightarrow> nat \<Rightarrow> robot \<Rightarrow> outcome" where
  "done_of k =
     (case k of
        JStartConnections callback second \<Rightarrow> series_after_connections callback second
      | JStartDevices callback results \<Rightarrow> series_after_devices callback results
      | JHaltDevices ah conns \<Rightarrow> (\<lambda>err n. halt_connections ah conns)
      | JHaltConnections ah \<Rightarrow> (\<lambda>err n. after_halt_cb ah))"

text \<open>
  One turn of the event loop: the oldest scheduled completion calls the callback of
  its barrier.
\<close>

definition deliver :: "robot \<Rightarrow> outcome" where
  "deliver r =
     (case pending r of
        [] \<Rightarrow> Normal r
      | p # rest \<Rightarrow>
          (let r1 = r\<lparr>pending := rest\<rparr>
           in if fst p < length (joins r1)
              then join_callback (done_of (kind (joins r1 ! fst p))) (fst p) (snd p) r1
              else Normal r1))"

text \<open>The loop runs until nothing is scheduled; \<open>n\<close> bounds the turns.\<close>

fun drain :: "nat \<Rightarrow> robot \<Rightarrow> outcome" where
  "drain 0 r = Normal r"
| "drain (Suc n) r = (if pending r = [] then Normal r else and_then (deliver r) (drain n))"

section \<open>Construction and serialization\<close>

text \<open>
  The configuration the constructor receives, as the validator (not among the
  sources) admits it: the keys \<^verbatim>\<open>connections\<close> and \<^verbatim>\<open>devices\<close> hold mappings from
  names to specifications, a connection specification may embed device
  specifications, and every other key (\<^verbatim>\<open>name\<close>, \<^verbatim>\<open>work\<close>, \<^verbatim>\<open>play\<close>, \<^verbatim>\<open>commands\<close>,
  \<^verbatim>\<open>events\<close>, \<^verbatim>\<open>error\<close>, any other) is in \<open>opt_rest\<close>, in creation order. The list
  form of \<^verbatim>\<open>connections\<close> and \<^verbatim>\<open>devices\<close>, whose names come from the elements, is not
  modelled.
\<close>

record conn_cfg = conn_opts +
  c_devices :: "dev_opts jsobj option"

record options =
  opt_connections :: "conn_cfg jsobj option"
  opt_devices :: "dev_opts jsobj option"
  opt_rest :: "jsval jsobj"

text \<open>\<^verbatim>\<open>opts.k\<close> for a key of \<open>opt_rest\<close>.\<close>

definition opt_get :: "options \<Rightarrow> string \<Rightarrow> jsval" where
  "opt_get opts k = (case map_of (opt_rest opts) k of Some v \<Rightarrow> v | None \<Rightarrow> VUndefined)"

text \<open>
  One turn of \<^verbatim>\<open>_.each(opts.connections, ...)\<close> in \<^verbatim>\<open>initRobot\<close>: the embedded
  devices are moved to \<^verbatim>\<open>opts.devices\<close> under their keys, bound to this connection
  by name; then the connection is registered.
\<close>

definition embed_device ::
  "string \<Rightarrow> string \<times> dev_opts \<Rightarrow> dev_opts jsobj \<Rightarrow> dev_opts jsobj" where
  "embed_device name p devs = obj_put (fst p) ((snd p)\<lparr>o_connection := Some name\<rparr>) devs"

definition register_connection ::
  "string \<times> conn_cfg \<Rightarrow> robot \<times> dev_opts jsobj option \<Rightarrow> robot \<times> dev_opts jsobj option" where
  "register_connection p s =
     (let name = fst p;
          conn = snd p;
          devs = (case c_devices conn of
                    None \<Rightarrow> snd s
                  | Some ds \<Rightarrow>
                      Some (fold (embed_device name) (own_entries ds)
                              (case snd s of None \<Rightarrow> [] | Some d \<Rightarrow> d)))
      in (connection name (conn_opts.truncate conn) (fst s), devs))"

text \<open>
  The methods of the prototype in \<^verbatim>\<open>lib/robot.js\<close>. \<open>inherited\<close>, a parameter below,
  lists the members the controller inherits from the event emitter (\<^verbatim>\<open>emit\<close>,
  \<^verbatim>\<open>listeners\<close>, \<^verbatim>\<open>on\<close>, ...), whose code is not among the sources.
\<close>

definition robot_methods :: "string list" where
  "robot_methods =
     [''toJSON'', ''connection'', ''initRobot'',
      ''device'', ''start'', ''startWork'', ''startConnections'', ''startConnection'',
      ''removeConnection'', ''startDevices'', ''startDevice'', ''removeDevice'',
      ''createNewDevice'', ''deleteDevice'', ''halt'', ''toString'', ''log'']"

text \<open>
  The loop at the head of the constructor,
  \<^verbatim>\<open>for (var prop in Object.getPrototypeOf(this)) { if (this[prop] && prop !== "constructor") { this[prop] = this[prop].bind(this); } }\<close>:
  the name space of the object when \<^verbatim>\<open>initRobot\<close> is called.
\<close>

definition autobind :: "string list \<Rightarrow> string \<Rightarrow> jsval option" where
  "autobind inherited =
     (\<lambda>m. if (m \<in> set robot_methods \<or> m \<in> set inherited) \<and> m \<noteq> ''constructor''
          then Some (bound_method m) else None)"

text \<open>
  \<^verbatim>\<open>Robot.prototype.initRobot\<close>. \<open>bound\<close> is the name space the method finds, \<open>rid\<close>
  the counter \<^verbatim>\<open>ROBOT_ID\<close>; \<open>wm\<close> is the process-wide \<^verbatim>\<open>workMode\<close> setting, which
  \<^verbatim>\<open>start\<close> reads. A new controller has no listeners.
\<close>

definition initRobot ::
  "string option \<Rightarrow> nat \<Rightarrow> options \<Rightarrow> (string \<Rightarrow> jsval option) \<Rightarrow> robot" where
  "initRobot wm rid opts bound =
     (let nm = (if truthy (opt_get opts ''name'') then opt_get opts ''name''
                else VStr (''Robot '' @ string_of_nat rid));
          w0 = (if truthy (opt_get opts ''work'') then opt_get opts ''work''
                else opt_get opts ''play'');
          w = (if truthy w0 then w0 else default_work);
          r0 = \<lparr>props = bound(''name'' \<mapsto> nm, ''running'' \<mapsto> VBool False,
                              ''connections'' \<mapsto> VTable ''connections'',
                              ''devices'' \<mapsto> VTable ''devices'', ''work'' \<mapsto> w,
                              ''commands'' \<mapsto> VTable ''commands''),
                connections = [], devices = [], commands = [],
                listener_count = (\<lambda>n. 0), workMode = wm, trace = [], joins = [],
                pending = []\<rparr>;
          s = fold register_connection
                (own_entries (case opt_connections opts of None \<Rightarrow> [] | Some cs \<Rightarrow> cs))
                (r0, opt_devices opts)
      in fold (\<lambda>p. device (fst p) (snd p))
           (own_entries (case snd s of None \<Rightarrow> [] | Some ds \<Rightarrow> ds)) (fst s))"

text \<open>
  The members of the controller that are not data properties: the three tables and
  the methods of its prototype.
\<close>

definition own_members :: "string list" where
  "own_members = [''connections'', ''devices'', ''commands''] @ robot_methods"

text \<open>\<^verbatim>\<open>this[name] !== undefined\<close>.\<close>

definition this_defined :: "string list \<Rightarrow> robot \<Rightarrow> string \<Rightarrow> bool" where
  "this_defined inherited r name =
     (this_get r name \<noteq> VUndefined \<or> name \<in> set own_members \<or> name \<in> set inherited
      \<or> name \<in> set object_prototype_names)"

text \<open>
  The body of \<^verbatim>\<open>_.each(opts, function(opt, name) { ... })\<close> in the constructor;
  \<open>no_commands\<close> is \<^verbatim>\<open>opts.commands == null\<close>.
\<close>

definition merge_option :: "bool \<Rightarrow> string list \<Rightarrow> string \<times> jsval \<Rightarrow> robot \<Rightarrow> robot" where
  "merge_option no_commands inherited p r =
     (let name = fst p; opt = snd p
      in if this_defined inherited r name then r
         else if isFunction opt
         then (let r1 = this_set name opt r
               in if no_commands then r1\<lparr>commands := obj_put name opt (commands r1)\<rparr> else r1)
         else this_set name opt r)"

datatype constructed = Built robot bool | Failed string

text \<open>
  The constructor. \<open>Built r auto\<close>: the controller, and whether \<^verbatim>\<open>start\<close> has been
  scheduled for the next turn (the process-wide \<^verbatim>\<open>mode\<close> is \<^verbatim>\<open>auto\<close>).
\<close>

definition Robot_new ::
  "string option \<Rightarrow> string option \<Rightarrow> string list \<Rightarrow> nat \<Rightarrow> options \<Rightarrow> constructed" where
  "Robot_new mode wm inherited rid opts =
     (let r0 = initRobot wm rid opts (autobind inherited);
          no_commands = (opt_get opts ''commands'' = VUndefined \<or> opt_get opts ''commands'' = VNull);
          r1 = fold (merge_option no_commands inherited) (own_entries (opt_rest opts)) r0;
          auto = (fetch mode ''manual'' = ''auto'')
      in if truthy (opt_get opts ''commands'')
         then (let cmds = (case opt_get opts ''commands'' of
                             VFun f ret \<Rightarrow> ret
                           | v \<Rightarrow> v)
               in case cmds of
                    VMap m \<Rightarrow> Built (r1\<lparr>commands := m\<rparr>) auto
                  | _ \<Rightarrow> Failed (''#commands must be an object '' @
                                  ''or a function that returns an object''))
         else Built r1 auto)"

text \<open>
  \<^verbatim>\<open>Robot.prototype.toJSON\<close>. The serialized form of a handle is the handle's own
  business; the model lists the handles.
\<close>

record json =
  j_name :: jsval
  j_connections :: "connection_handle list"
  j_devices :: "device_handle list"
  j_commands :: "string list"
  j_events :: "string list"

definition toJSON :: "robot \<Rightarrow> json" where
  "toJSON r =
     \<lparr>j_name = this_get r ''name'',
      j_connections = own_values (connections r),
      j_devices = own_values (devices r),
      j_commands = own_keys (commands r),
      j_events = (case this_get r ''events'' of VList es \<Rightarrow> es | _ \<Rightarrow> [])\<rparr>"

text \<open>\<^verbatim>\<open>Robot.prototype.toString\<close>.\<close>

definition toString :: "robot \<Rightarrow> string" where
  "toString r = ''[Robot name='' @ quoted (to_string (this_get r ''name'')) @ '']''"

section \<open>Predicates of the specification\<close>



text \<open>
  An operation responds when it calls the callback it is given, at once or later; it
  is synchronous when it calls it before it returns.
\<close>

fun responds :: "behaviour \<Rightarrow> bool" where
  "responds (CallsBack e) = True"
| "responds (Later e) = True"
| "responds (Throws x) = False"
| "responds Silent = False"

fun is_sync :: "behaviour \<Rightarrow> bool" where
  "is_sync (CallsBack e) = True"
| "is_sync b = False"

text \<open>
  What the merge of the configuration finds defined on the controller: the three data
  properties \<^verbatim>\<open>initRobot\<close> has assigned, the tables and methods, and the inherited
  members.
\<close>

definition predefined :: "string list \<Rightarrow> string \<Rightarrow> bool" where
  "predefined inherited k =
     (k \<in> set [''name'', ''running'', ''work''] \<or> k \<in> set own_members \<or> k \<in> set inherited
      \<or> k \<in> set object_prototype_names)"

section \<open>Example controllers and runs\<close>

text \<open>
  \<open>ultron\<close> is the controller the constructor builds from a name and a work routine;
  \<open>fresh nm w\<close> is the name space of a new controller with the name \<open>nm\<close> and the
  work routine \<open>w\<close>, the inherited members being those of \<open>emitter_members\<close>.
  The adaptor \<open>loopback\<close> and the driver \<open>ping\<close> complete asynchronously and without
  error; \<open>prompt\<close> and \<open>sound\<close> call back at once; the driver \<open>faulty\<close> throws from
  \<^verbatim>\<open>halt\<close>; the adaptor \<open>refusing\<close> reports an error from \<^verbatim>\<open>connect\<close>, later.
\<close>

definition emitter_members :: "string list" where
  "emitter_members = [''emit'', ''listeners'', ''on'', ''once'', ''addListener'', ''removeListener'']"

definition fresh :: "jsval \<Rightarrow> jsval \<Rightarrow> string \<Rightarrow> jsval option" where
  "fresh nm w = (autobind emitter_members)
     (''name'' \<mapsto> nm, ''running'' \<mapsto> VBool False,
      ''connections'' \<mapsto> VTable ''connections'', ''devices'' \<mapsto> VTable ''devices'',
      ''work'' \<mapsto> w, ''commands'' \<mapsto> VTable ''commands'')"

definition ultron :: robot where
  "ultron =
     \<lparr>props = fresh (VStr ''Ultron'') (VFun ''work'' VUndefined),
      connections = [], devices = [], commands = [],
      listener_count = (\<lambda>n. 0), workMode = None, trace = [], joins = [], pending = []\<rparr>"

definition loopback :: conn_opts where
  "loopback = \<lparr>adaptor = ''loopback'', o_host = VUndefined, o_port = VUndefined,
               o_connect = Later None, o_disconnect = Later None\<rparr>"

definition ping :: dev_opts where
  "ping = \<lparr>driver = ''ping'', o_pin = VUndefined, o_connection = None,
           o_start = Later None, o_halt = Later None\<rparr>"




definition refusing :: conn_opts where
  "refusing = \<lparr>adaptor = ''loopback'', o_host = VUndefined, o_port = VUndefined,
               o_connect = Later (Some ''refused''), o_disconnect = Later None\<rparr>"




definition one_each :: robot where
  "one_each = device ''ping'' ping (connection ''loopback'' loopback ultron)"


text \<open>A controller one of whose connections is named like a method.\<close>

definition log_first :: robot where
  "log_first = connection ''b'' loopback (connection ''log'' loopback ultron)"

text \<open>A controller with an error handler and a listener of the \<^verbatim>\<open>error\<close> event.\<close>

definition guarded :: robot where
  "guarded = ultron\<lparr>props := (props ultron)(''error'' \<mapsto> VFun ''onError'' VUndefined),
                    listener_count := (\<lambda>n. if n = ''error'' then 1 else 0)\<rparr>"

definition refused :: robot where
  "refused = device ''ping'' ping (connection ''loopback'' refusing guarded)"

text \<open>
  Runs: \<open>one_each\<close> when \<^verbatim>\<open>start\<close> has returned, and two turns of the event loop
  later; \<open>two_devices\<close> started; \<open>refused\<close> when \<^verbatim>\<open>start\<close> has returned, and when the
  event loop has delivered the error of the connection to the barrier and the
  completion function of the series is called.
\<close>

definition start_returned :: robot where
  "start_returned = state_of (start True one_each)"



definition refused_returned :: robot where
  "refused_returned = state_of (start True refused)"

definition refusal_delivered :: robot where
  "refusal_delivered =
     refused_returned\<lparr>pending := [],
       joins := [\<lparr>kind = JStartConnections True True, total = 1, completed = 1,
                  jerror = Some ''refused''\<rparr>]\<rparr>"

text \<open>
  Configurations: one with an explicit command table and one without, and the
  controllers the constructor builds from them.
\<close>

definition with_commands :: options where
  "with_commands =
     \<lparr>opt_connections = None, opt_devices = None,
      opt_rest = [(''name'', VStr ''Ultron''), (''hello'', VFun ''hello'' VUndefined),
                  (''commands'', VMap [(''echo'', VFun ''echo'' VUndefined)])]\<rparr>"

definition echo_robot :: robot where
  "echo_robot =
     \<lparr>props = (fresh (VStr ''Ultron'') default_work)(''hello'' \<mapsto> VFun ''hello'' VUndefined),
      connections = [], devices = [], commands = [(''echo'', VFun ''echo'' VUndefined)],
      listener_count = (\<lambda>n. 0), workMode = None, trace = [], joins = [], pending = []\<rparr>"

definition plain_options :: options where
  "plain_options =
     \<lparr>opt_connections = None, opt_devices = None,
      opt_rest = [(''name'', VStr ''Ultron''), (''work'', VFun ''work'' VUndefined),
                  (''hello'', VFun ''hello'' VUndefined), (''size'', VNum 3)]\<rparr>"

definition hello_robot :: robot where
  "hello_robot =
     \<lparr>props = (fresh (VStr ''Ultron'') (VFun ''work'' VUndefined))
                (''hello'' \<mapsto> VFun ''hello'' VUndefined, ''size'' \<mapsto> VNum 3),
      connections = [], devices = [], commands = [(''hello'', VFun ''hello'' VUndefined)],
      listener_count = (\<lambda>n. 0), workMode = None, trace = [], joins = [], pending = []\<rparr>"

section \<open>Properties of registration\<close>

lemma set_own_entries: "set (own_entries obj) = set obj"
  by (auto simp: own_entries_def)

lemma set_own_keys: "set (own_keys obj) = fst ` set obj"
  by (simp add: own_keys_def set_own_entries)






















section \<open>Properties of the life cycle\<close>

subsection \<open>Runs of the examples\<close>

lemmas eval_reg =
  device_def device_name_def device_connection_def connection_def
  obj_get_def present_def object_prototype_names_def own_keys_def
  own_entries_def is_array_index_def is_digit_def
  log_def record_event_def this_get_def

lemmas eval_lifecycle =
  start_def startConnections_def startConnection_def startDevices_def startDevice_def
  startWork_def default_work_def series_after_connections_def series_after_devices_def
  start_done_def
  halt_def halt_join_def wrap_def halt_connections_def after_halt_cb_def
  parallel_def join_callback_def call_with_callback_def and_then_def is_error_def
  fetch_def set_connected_def set_started_def current_connection_def current_device_def
  own_values_def own_entries_def is_array_index_def is_digit_def this_get_def this_set_def
  log_def record_event_def quoted_def deliver_def done_of_def Let_def
  call_method_def this_method_def bound_method_def not_a_function_def

lemmas eval_examples =
  ultron_def fresh_def autobind_def robot_methods_def emitter_members_def
  loopback_def ping_def initializer_adaptor_def initializer_driver_def

lemma one_each_eval:
  "one_each = ultron\<lparr>connections := [(''loopback'', initializer_adaptor ''loopback'' loopback)],
     devices := [(''ping'', initializer_driver ''ping'' (ConnRef ''loopback'') ping)]\<rparr>"
  by (simp add: one_each_def eval_reg ultron_def ping_def)

lemma start_returned_eval:
  "start_returned = one_each\<lparr>
     props := (props one_each)(''loopback'' \<mapsto> VConn ''loopback'', ''running'' \<mapsto> VBool True),
     connections := [(''loopback'', (initializer_adaptor ''loopback'' loopback)\<lparr>connected := True\<rparr>)],
     trace := [Logged ''[Ultron] - Starting connections.'',
        Logged (''[Ultron] - Starting connection '' @ quoted ''loopback'' @ ''.''),
        AdaptorConnect ''loopback'', Logged ''[Ultron] - Working.'',
        Emitted ''ready'' Controller, Work ''work''],
     joins := [\<lparr>kind = JStartConnections True True, total = 1, completed = 0, jerror = None\<rparr>],
     pending := [(0, None)]\<rparr>"
  unfolding start_returned_def
  by (simp add: one_each_eval) (simp add: eval_lifecycle eval_examples)

text \<open>
  Claim C1 fails on the code. The controller has one connection and one device, both
  completing asynchronously and without error. When \<^verbatim>\<open>start\<close> returns, the \<^verbatim>\<open>ready\<close>
  event has been dispatched and the work routine has run, while the completion of the
  connection is still scheduled, the connection barrier has counted nothing and the
  device has not been started; the device is started and the start callback is called
  two turns of the event loop later. The doc comment of \<^verbatim>\<open>start\<close> reads: starts the
  Robot's connections, then devices, then work.
\<close>

theorem work_runs_before_the_barriers:
  "connect (snd (hd (connections one_each))) = Later None
   \<and> dstart (snd (hd (devices one_each))) = Later None
   \<and> trace start_returned =
       [Logged ''[Ultron] - Starting connections.'',
        Logged (''[Ultron] - Starting connection '' @ quoted ''loopback'' @ ''.''),
        AdaptorConnect ''loopback'', Logged ''[Ultron] - Working.'',
        Emitted ''ready'' Controller, Work ''work'']
   \<and> this_get start_returned ''running'' = VBool True
   \<and> pending start_returned = [(0, None)]
   \<and> map completed (joins start_returned) = [0]
   \<and> map started (map snd (devices start_returned)) = [False]
   \<and> trace (state_of (drain 2 start_returned)) =
       trace start_returned @
       [Logged ''[Ultron] - Starting devices.'',
        Logged (''[Ultron] - Starting device '' @ quoted ''ping'' @ ''.''),
        DriverStart ''ping'', StartCallback None [1, 1]]"
  by (simp add: start_returned_eval) (simp add: one_each_eval eval_lifecycle eval_examples numeral_2_eq_2)

text \<open>
  Claim C7. On a controller whose \<^verbatim>\<open>running\<close> is \<^verbatim>\<open>true\<close>, \<^verbatim>\<open>start\<close> returns at once
  and leaves the whole state as it is: no connection is connected, no device is started,
  nothing is logged, no barrier is created, and no handle changes.
\<close>

theorem start_when_running_is_noop:
  assumes "this_get r ''running'' = VBool True"
  shows "start callback r = Normal r"
  using assms by (simp add: start_def)

theorem start_when_running_is_noop_witness:
  "this_get start_returned ''running'' = VBool True
   \<and> start True start_returned = Normal start_returned
   \<and> trace (state_of (start True start_returned)) = trace start_returned
   \<and> connections (state_of (start True start_returned)) = connections start_returned
   \<and> devices (state_of (start True start_returned)) = devices start_returned"
proof -
  have h: "this_get start_returned ''running'' = VBool True"
    by (simp add: start_returned_eval this_get_def)
  from start_when_running_is_noop [OF h, of True] h show ?thesis
    by simp
qed



lemma refused_eval:
  "refused = guarded\<lparr>connections := [(''loopback'', initializer_adaptor ''loopback'' refusing)],
     devices := [(''ping'', initializer_driver ''ping'' (ConnRef ''loopback'') ping)]\<rparr>"
  by (simp add: refused_def guarded_def eval_reg ultron_def ping_def)





subsection \<open>Handles assigned by name\<close>

lemma log_first_eval:
  "log_first = ultron\<lparr>connections := [(''log'', initializer_adaptor ''log'' loopback),
     (''b'', initializer_adaptor ''b'' loopback)]\<rparr>"
  by (simp add: log_first_def eval_reg ultron_def)

text \<open>
  Claim C10 fails where the method \<^verbatim>\<open>log\<close> has been replaced. The controller has two
  connections, named \<^verbatim>\<open>log\<close> and \<^verbatim>\<open>b\<close>, neither of them connected. \<^verbatim>\<open>start\<close> runs
  the unit of \<^verbatim>\<open>log\<close>, which assigns the handle to \<^verbatim>\<open>this.log\<close>, and then the unit of
  \<^verbatim>\<open>b\<close>, whose call \<^verbatim>\<open>this.log(...)\<close> throws a \<^verbatim>\<open>TypeError\<close> before the assignment:
  \<^verbatim>\<open>start\<close> throws, the controller has no property \<^verbatim>\<open>b\<close> and \<^verbatim>\<open>b\<close> is not connected.
\<close>

theorem unit_after_log_is_replaced_assigns_nothing:
  "map cname (own_values (connections log_first)) = [''log'', ''b'']
   \<and> map connected (own_values (connections log_first)) = [False, False]
   \<and> this_method log_first ''log''
   \<and> start True log_first = Thrown ''this.log is not a function'' (state_of (start True log_first))
   \<and> this_get (state_of (start True log_first)) ''log'' = VConn ''log''
   \<and> this_get (state_of (start True log_first)) ''b'' = VUndefined
   \<and> map connected (own_values (connections (state_of (start True log_first)))) = [True, False]
   \<and> trace (state_of (start True log_first)) =
       [Logged ''[Ultron] - Starting connections.'',
        Logged (''[Ultron] - Starting connection '' @ quoted ''log'' @ ''.''),
        AdaptorConnect ''log'']"
  by (simp add: log_first_eval) (simp add: eval_lifecycle eval_examples)

text \<open>
  Claim C10, as amended. Starting a connection that is not marked connected, or a
  device that is not marked started, while \<^verbatim>\<open>this.log\<close> is still the method, logs one
  line and assigns the handle to the controller under the handle's name, whatever the
  controller held under that name before (a data property, a state field such as
  \<^verbatim>\<open>running\<close> or \<^verbatim>\<open>work\<close>, a table or a method), and changes no other property; then
  the adaptor or driver is called, and the completion callback, if it is called inside
  that call, finds the property assigned. When the adaptor or driver does not call
  back before it returns, the property is there when the unit returns. A handle
  already marked is not assigned: its callback is called at once. When \<^verbatim>\<open>this.log\<close>
  has been replaced, the unit throws a \<^verbatim>\<open>TypeError\<close> and assigns nothing. In the
  instance below the unit that \<^verbatim>\<open>start\<close> makes of a connection named \<^verbatim>\<open>log\<close>, with the
  callback of its barrier, replaces the method \<^verbatim>\<open>log\<close> by the handle, and the unit of
  a device named \<^verbatim>\<open>running\<close> replaces the state field.
\<close>

theorem start_assigns_handle_to_controller:
  "(if connected conn then startConnection conn j cb r = cb None r
    else if \<not> this_method r ''log''
    then startConnection conn j cb r = Thrown ''this.log is not a function'' r
    else (\<exists>s l. props s = (props r)(cname conn \<mapsto> VConn (cname conn))
            \<and> trace s = trace r @ [Logged l, AdaptorConnect (cname conn)]
            \<and> startConnection conn j cb r =
                and_then (call_with_callback (connect conn) (\<lambda>e. e) j cb s)
                  (\<lambda>r4. Normal (set_connected (cname conn) r4)))
         \<and> (\<not> is_sync (connect conn) \<longrightarrow>
               props (state_of (startConnection conn j cb r)) =
                 (props r)(cname conn \<mapsto> VConn (cname conn))))
   \<and> (if started dev then startDevice dev j cb r = cb None r
      else if \<not> this_method r ''log''
      then startDevice dev j cb r = Thrown ''log is not a function'' r
      else (\<exists>s l. props s = (props r)(dname dev \<mapsto> VDev (dname dev))
              \<and> trace s = trace r @ [Logged l, DriverStart (dname dev)]
              \<and> startDevice dev j cb r =
                  and_then (call_with_callback (dstart dev) (\<lambda>e. e) j cb s)
                    (\<lambda>r4. Normal (set_started (dname dev) r4)))
           \<and> (\<not> is_sync (dstart dev) \<longrightarrow>
                 props (state_of (startDevice dev j cb r)) =
                   (props r)(dname dev \<mapsto> VDev (dname dev))))"
proof -
  have c: "\<exists>s l. props s = (props r)(cname conn \<mapsto> VConn (cname conn))
            \<and> trace s = trace r @ [Logged l, AdaptorConnect (cname conn)]
            \<and> startConnection conn j cb r =
                and_then (call_with_callback (connect conn) (\<lambda>e. e) j cb s)
                  (\<lambda>r4. Normal (set_connected (cname conn) r4))"
    if "\<not> connected conn" and "this_method r ''log''"
    using that
    by (simp add: startConnection_def call_method_def Let_def this_set_def record_event_def
        log_def) (metis (no_types) robot.select_convs(1,7) robot.surjective robot.update_convs(1,7))
  have d: "\<exists>s l. props s = (props r)(dname dev \<mapsto> VDev (dname dev))
            \<and> trace s = trace r @ [Logged l, DriverStart (dname dev)]
            \<and> startDevice dev j cb r =
                and_then (call_with_callback (dstart dev) (\<lambda>e. e) j cb s)
                  (\<lambda>r4. Normal (set_started (dname dev) r4))"
    if "\<not> started dev" and "this_method r ''log''"
    using that
    by (simp add: startDevice_def call_method_def Let_def this_set_def record_event_def
        log_def) (metis (no_types) robot.select_convs(1,7) robot.surjective robot.update_convs(1,7))
  have c': "props (state_of (startConnection conn j cb r)) =
      (props r)(cname conn \<mapsto> VConn (cname conn))"
    if "\<not> connected conn" and "this_method r ''log''" and "\<not> is_sync (connect conn)"
    using that
    by (cases "connect conn")
       (simp_all add: startConnection_def call_method_def Let_def this_set_def record_event_def
          log_def call_with_callback_def set_connected_def and_then_def)
  have d': "props (state_of (startDevice dev j cb r)) =
      (props r)(dname dev \<mapsto> VDev (dname dev))"
    if "\<not> started dev" and "this_method r ''log''" and "\<not> is_sync (dstart dev)"
    using that
    by (cases "dstart dev")
       (simp_all add: startDevice_def call_method_def Let_def this_set_def record_event_def
          log_def call_with_callback_def set_started_def and_then_def)
  have t: "startConnection conn j cb r = Thrown ''this.log is not a function'' r"
    if "\<not> connected conn" and "\<not> this_method r ''log''"
    using that by (simp add: startConnection_def call_method_def Let_def not_a_function_def)
  have u: "startDevice dev j cb r = Thrown ''log is not a function'' r"
    if "\<not> started dev" and "\<not> this_method r ''log''"
    using that by (simp add: startDevice_def call_method_def Let_def not_a_function_def)
  have k: "connected conn \<Longrightarrow> startConnection conn j cb r = cb None r"
    "started dev \<Longrightarrow> startDevice dev j cb r = cb None r"
    by (simp_all add: startConnection_def startDevice_def)
  show ?thesis
    using c d c' d' t u k by presburger
qed

theorem start_assigns_handle_to_controller_witness:
  "\<not> connected (initializer_adaptor ''log'' loopback)
   \<and> \<not> is_sync (connect (initializer_adaptor ''log'' loopback))
   \<and> \<not> started (initializer_driver ''running'' (ConnRef ''log'') ping)
   \<and> \<not> is_sync (dstart (initializer_driver ''running'' (ConnRef ''log'') ping))
   \<and> this_get log_first ''log'' = bound_method ''log''
   \<and> this_get log_first ''running'' = VBool False
   \<and> this_get (state_of (startConnection (initializer_adaptor ''log'' loopback) 0
         (join_callback (series_after_connections True True) 0) log_first)) ''log'' = VConn ''log''
   \<and> this_get (state_of (startDevice (initializer_driver ''running'' (ConnRef ''log'') ping) 1
         (join_callback (series_after_devices True [2]) 1) log_first)) ''running'' = VDev ''running''"
proof -
  have h: "\<not> connected (initializer_adaptor ''log'' loopback)"
    "\<not> is_sync (connect (initializer_adaptor ''log'' loopback))"
    "\<not> started (initializer_driver ''running'' (ConnRef ''log'') ping)"
    "\<not> is_sync (dstart (initializer_driver ''running'' (ConnRef ''log'') ping))"
    "cname (initializer_adaptor ''log'' loopback) = ''log''"
    "dname (initializer_driver ''running'' (ConnRef ''log'') ping) = ''running''"
    by (simp_all add: initializer_adaptor_def initializer_driver_def loopback_def ping_def)
  have m: "this_method log_first ''log''" "this_get log_first ''log'' = bound_method ''log''"
    "this_get log_first ''running'' = VBool False"
    by (simp_all add: log_first_eval this_method_def this_get_def eval_examples bound_method_def)
  from start_assigns_handle_to_controller [where conn = "initializer_adaptor ''log'' loopback"
      and cb = "join_callback (series_after_connections True True) 0" and j = 0 and r = log_first
      and dev = "initializer_driver ''log'' (ConnRef ''log'') ping"]
    start_assigns_handle_to_controller [where conn = "initializer_adaptor ''log'' loopback"
      and cb = "join_callback (series_after_devices True [2]) 1" and j = 1 and r = log_first
      and dev = "initializer_driver ''running'' (ConnRef ''log'') ping"]
    h m
  show ?thesis
    by (simp add: this_get_def)
qed


subsection \<open>Barriers of units that call back\<close>



lemma and_then_Normal [simp]: "and_then (Normal r) f = f r"
  by (simp add: and_then_def)

lemma and_then_Thrown [simp]: "and_then (Thrown e r) f = Thrown e r"
  by (simp add: and_then_def)

lemma and_then_run_units_Nil [simp]: "and_then x (run_units call []) = x"
  by (cases x) simp_all


























lemma is_sync_responds: "is_sync b \<Longrightarrow> responds b"
  by (cases b) simp_all

subsection \<open>The trace only grows\<close>

definition grows :: "robot \<Rightarrow> outcome \<Rightarrow> bool" where
  "grows r x = (\<exists>es. trace (state_of x) = trace r @ es)"

lemma grows_Normal_same [simp]: "trace r' = trace r \<Longrightarrow> grows r (Normal r')"
  by (simp add: grows_def)

lemma grows_Thrown_same [simp]: "trace r' = trace r \<Longrightarrow> grows r (Thrown e r')"
  by (simp add: grows_def)

lemma grows_trans: "grows r (Normal s) \<Longrightarrow> grows s x \<Longrightarrow> grows r x"
  by (auto simp: grows_def)












subsection \<open>What halting does before it returns, and after\<close>






subsection \<open>Halting and start errors\<close>







subsection \<open>Start errors\<close>

lemma this_method_trace [simp]: "this_method (r\<lparr>trace := t\<rparr>) m = this_method r m"
  by (simp add: this_method_def this_get_def)





lemma refused_returned_eval:
  "refused_returned = refused\<lparr>
     props := (props refused)(''loopback'' \<mapsto> VConn ''loopback'', ''running'' \<mapsto> VBool True),
     connections := [(''loopback'', (initializer_adaptor ''loopback'' refusing)\<lparr>connected := True\<rparr>)],
     trace := [Logged ''[Ultron] - Starting connections.'',
        Logged (''[Ultron] - Starting connection '' @ quoted ''loopback'' @ ''.''),
        AdaptorConnect ''loopback'', Logged ''[Ultron] - Working.'',
        Emitted ''ready'' Controller, Work ''work''],
     joins := [\<lparr>kind = JStartConnections True True, total = 1, completed = 0, jerror = None\<rparr>],
     pending := [(0, Some ''refused'')]\<rparr>"
  unfolding refused_returned_def
  by (simp add: refused_eval)
     (simp add: guarded_def refusing_def eval_lifecycle eval_examples)

lemma refusal_is_delivered:
  "deliver refused_returned = start_done True (Some ''refused'') [] refusal_delivered"
  unfolding refusal_delivered_def
  by (simp add: refused_returned_eval)
     (simp add: deliver_def join_callback_def done_of_def series_after_connections_def
        is_error_def Let_def)



section \<open>Properties of construction\<close>

lemma connection_keeps:
  "props (connection n c r) = props r \<and> commands (connection n c r) = commands r"
  by (simp add: connection_def Let_def log_def record_event_def)

lemma device_keeps:
  "props (device n d r) = props r \<and> commands (device n d r) = commands r"
  by (simp add: device_def device_name_def device_connection_def Let_def log_def record_event_def
      split: prod.splits option.splits lookup.splits list.splits)

lemma register_connections_keep:
  "props (fst (fold register_connection ps s)) = props (fst s)
   \<and> commands (fst (fold register_connection ps s)) = commands (fst s)"
  by (induction ps arbitrary: s) (simp_all add: register_connection_def Let_def connection_keeps)

lemma register_devices_keep:
  "props (fold (\<lambda>p. device (fst p) (snd p)) ps r) = props r
   \<and> commands (fold (\<lambda>p. device (fst p) (snd p)) ps r) = commands r"
  by (induction ps arbitrary: r) (simp_all add: device_keeps)

lemma initRobot_commands: "commands (initRobot wm rid opts bound) = []"
  by (simp add: initRobot_def Let_def register_devices_keep register_connections_keep)

lemma initRobot_defined:
  "this_defined inherited (initRobot wm rid opts (autobind inherited)) k = predefined inherited k"
proof -
  let ?nm = "if truthy (opt_get opts ''name'') then opt_get opts ''name''
                else VStr (''Robot '' @ string_of_nat rid)"
  let ?w0 = "if truthy (opt_get opts ''work'') then opt_get opts ''work''
                else opt_get opts ''play''"
  let ?w = "if truthy ?w0 then ?w0 else default_work"
  have p: "props (initRobot wm rid opts (autobind inherited)) =
      (autobind inherited)(''name'' \<mapsto> ?nm, ''running'' \<mapsto> VBool False,
         ''connections'' \<mapsto> VTable ''connections'', ''devices'' \<mapsto> VTable ''devices'',
         ''work'' \<mapsto> ?w, ''commands'' \<mapsto> VTable ''commands'')"
    by (simp add: initRobot_def Let_def register_devices_keep register_connections_keep)
  have "?nm \<noteq> VUndefined" and "?w \<noteq> VUndefined"
    by (auto simp: default_work_def)
  then show ?thesis
    unfolding this_defined_def predefined_def this_get_def p
    by (auto simp: autobind_def own_members_def bound_method_def)
qed

lemma merge_option_defined:
  "k \<noteq> fst p \<Longrightarrow> this_defined inherited (merge_option b inherited p r) k = this_defined inherited r k"
  by (simp add: merge_option_def Let_def this_defined_def this_get_def this_set_def)

lemma keys_obj_put: "fst ` set (obj_put k v obj) = insert k (fst ` set obj)"
  by (induction obj) auto

lemma merge_option_commands:
  "fst ` set (commands (merge_option b inherited p r)) =
     fst ` set (commands r)
     \<union> (if b \<and> isFunction (snd p) \<and> \<not> this_defined inherited r (fst p) then {fst p} else {})"
  by (simp add: merge_option_def Let_def this_set_def keys_obj_put)

lemma merge_options_commands:
  assumes "distinct (map fst es)"
  shows "fst ` set (commands (fold (merge_option b inherited) es r)) =
     fst ` set (commands r)
     \<union> (if b then {k. \<exists>v. (k, v) \<in> set es \<and> isFunction v \<and> \<not> this_defined inherited r k} else {})"
  using assms
proof (induction es arbitrary: r)
  case Nil
  show ?case by simp
next
  case (Cons p es)
  let ?r = "merge_option b inherited p r"
  have later: "this_defined inherited ?r k = this_defined inherited r k" if "(k, v) \<in> set es" for k v
  proof -
    have "fst p \<notin> fst ` set es"
      using Cons.prems by simp
    then have "k \<noteq> fst p"
      using that by (metis fst_conv image_eqI)
    then show ?thesis
      by (rule merge_option_defined)
  qed
  have "fst ` set (commands (fold (merge_option b inherited) es ?r)) =
     fst ` set (commands ?r)
     \<union> (if b then {k. \<exists>v. (k, v) \<in> set es \<and> isFunction v \<and> \<not> this_defined inherited ?r k} else {})"
    using Cons.prems by (intro Cons.IH) simp
  also have "{k. \<exists>v. (k, v) \<in> set es \<and> isFunction v \<and> \<not> this_defined inherited ?r k}
      = {k. \<exists>v. (k, v) \<in> set es \<and> isFunction v \<and> \<not> this_defined inherited r k}"
    using later by blast
  finally show ?case
    by (cases p) (auto simp: merge_option_commands)
qed

lemma distinct_own_entries:
  assumes "distinct (map fst obj)"
  shows "distinct (map fst (own_entries obj))"
proof -
  let ?A = "filter (\<lambda>p. is_array_index (fst p)) obj"
  let ?B = "filter (\<lambda>p. \<not> is_array_index (fst p)) obj"
  have A: "distinct (map fst ?A)" and B: "distinct (map fst ?B)"
    using assms by (simp_all add: distinct_map_filter)
  have "distinct (map fst (sort_key (\<lambda>p. nat_of_string (fst p)) ?A))"
    using A by (simp add: distinct_map)
  moreover have "fst ` set (sort_key (\<lambda>p. nat_of_string (fst p)) ?A) \<inter> fst ` set ?B = {}"
    by auto
  ultimately show ?thesis
    using B by (simp add: own_entries_def)
qed

lemmas eval_constructor =
  Robot_new_def initRobot_def merge_option_def this_defined_def own_members_def
  robot_methods_def autobind_def bound_method_def fresh_def
  object_prototype_names_def opt_get_def this_get_def this_set_def fetch_def
  own_entries_def own_keys_def is_array_index_def is_digit_def toJSON_def Let_def

text \<open>
  A configuration with a callable key \<^verbatim>\<open>hello\<close> and an explicit command table
  \<^verbatim>\<open>{echo: ...}\<close>: the command list is \<^verbatim>\<open>["echo"]\<close>. The callable key becomes a
  property of the controller and no command.
\<close>

theorem explicit_commands_replace_callable_keys:
  "map_of (opt_rest with_commands) ''hello'' = Some (VFun ''hello'' VUndefined)
   \<and> \<not> predefined emitter_members ''hello''
   \<and> Robot_new None None emitter_members 1 with_commands = Built echo_robot False
   \<and> j_commands (toJSON echo_robot) = [''echo'']"
  by (simp add: with_commands_def echo_robot_def predefined_def emitter_members_def
      eval_constructor default_work_def fun_upd_twist)

text \<open>
  Claim C9, as amended. For a successfully constructed controller: when the
  configuration gives no \<^verbatim>\<open>commands\<close> (absent or \<^verbatim>\<open>null\<close>), the command list of
  \<^verbatim>\<open>toJSON\<close> holds exactly the keys whose value is callable and that the controller
  does not already define (so it holds no key with a value that is not callable); when
  it gives a mapping, or a callable that returns one, the command list is exactly the
  keys of that mapping, and the callable keys of the configuration are not added; when
  it gives another value that is not truthy, the list is empty.
\<close>

theorem commands_of_constructed_controller:
  assumes "Robot_new mode wm inherited rid opts = Built r auto"
    and "distinct (map fst (opt_rest opts))"
  shows "if opt_get opts ''commands'' = VUndefined \<or> opt_get opts ''commands'' = VNull
         then set (j_commands (toJSON r)) =
                {k. (\<exists>f ret. map_of (opt_rest opts) k = Some (VFun f ret))
                    \<and> \<not> predefined inherited k}
         else if truthy (opt_get opts ''commands'')
         then \<exists>m. (opt_get opts ''commands'' = VMap m
                    \<or> (\<exists>f. opt_get opts ''commands'' = VFun f (VMap m)))
                  \<and> j_commands (toJSON r) = own_keys m
         else j_commands (toJSON r) = []"
proof -
  let ?c = "opt_get opts ''commands''"
  let ?no = "?c = VUndefined \<or> ?c = VNull"
  let ?r0 = "initRobot wm rid opts (autobind inherited)"
  let ?r1 = "fold (merge_option ?no inherited) (own_entries (opt_rest opts)) ?r0"
  have d: "distinct (map fst (own_entries (opt_rest opts)))"
    using assms(2) by (rule distinct_own_entries)
  have keys: "fst ` set (commands ?r1) =
      (if ?no then {k. \<exists>v. (k, v) \<in> set (opt_rest opts) \<and> isFunction v
                        \<and> \<not> predefined inherited k} else {})"
    using merge_options_commands [OF d, of ?no inherited ?r0]
    by (simp add: initRobot_commands initRobot_defined set_own_entries)
  have callable: "(\<exists>v. (k, v) \<in> set (opt_rest opts) \<and> isFunction v)
      = (\<exists>f ret. map_of (opt_rest opts) k = Some (VFun f ret))" for k
  proof
    assume "\<exists>v. (k, v) \<in> set (opt_rest opts) \<and> isFunction v"
    then obtain v where v: "(k, v) \<in> set (opt_rest opts)" "isFunction v"
      by blast
    then obtain f ret where "v = VFun f ret"
      by (cases v) auto
    with v(1) assms(2) show "\<exists>f ret. map_of (opt_rest opts) k = Some (VFun f ret)"
      by auto
  next
    assume "\<exists>f ret. map_of (opt_rest opts) k = Some (VFun f ret)"
    then obtain f ret where "map_of (opt_rest opts) k = Some (VFun f ret)"
      by blast
    then have "(k, VFun f ret) \<in> set (opt_rest opts)"
      by (rule map_of_SomeD)
    then show "\<exists>v. (k, v) \<in> set (opt_rest opts) \<and> isFunction v"
      by force
  qed
  show ?thesis
  proof (cases ?no)
    case True
    then have "\<not> truthy ?c"
      by auto
    then have "r = ?r1"
      using assms(1) by (simp add: Robot_new_def Let_def)
    then have "set (j_commands (toJSON r)) = fst ` set (commands ?r1)"
      by (simp add: toJSON_def set_own_keys)
    moreover have "{k. \<exists>v. (k, v) \<in> set (opt_rest opts) \<and> isFunction v
                        \<and> \<not> predefined inherited k}
        = {k. (\<exists>v. (k, v) \<in> set (opt_rest opts) \<and> isFunction v) \<and> \<not> predefined inherited k}"
      by blast
    ultimately have "set (j_commands (toJSON r)) =
        {k. (\<exists>f ret. map_of (opt_rest opts) k = Some (VFun f ret)) \<and> \<not> predefined inherited k}"
      using keys True by (simp only: callable if_True)
    with True show ?thesis
      by simp
  next
    case no: False
    show ?thesis
    proof (cases "truthy ?c")
      case False
      then have "r = ?r1"
        using assms(1) by (simp add: Robot_new_def Let_def)
      moreover have "commands ?r1 = []"
        using keys no by simp
      ultimately show ?thesis
        using no False by (simp add: toJSON_def own_keys_def own_entries_def)
    next
      case True
      let ?cmds = "case ?c of VFun f ret \<Rightarrow> ret | v \<Rightarrow> v"
      obtain m where m: "?cmds = VMap m" "r = ?r1\<lparr>commands := m\<rparr>"
      proof (cases ?cmds)
        case (VMap m)
        with assms(1) True that show ?thesis
          by (simp add: Robot_new_def Let_def)
      qed (use assms(1) True in \<open>simp_all add: Robot_new_def Let_def\<close>)
      have "?c = VMap m \<or> (\<exists>f. ?c = VFun f (VMap m))"
        using m(1) by (cases ?c) auto
      with m(2) no True show ?thesis
        by (auto simp: toJSON_def)
    qed
  qed
qed

lemma plain_options_built:
  "Robot_new None None emitter_members 1 plain_options = Built hello_robot False"
  by (simp add: plain_options_def hello_robot_def emitter_members_def eval_constructor
      default_work_def)

theorem commands_of_constructed_controller_witness:
  "Robot_new None None emitter_members 1 plain_options = Built hello_robot False
   \<and> distinct (map fst (opt_rest plain_options))
   \<and> opt_get plain_options ''commands'' = VUndefined
   \<and> ''hello'' \<in> set (j_commands (toJSON hello_robot))
   \<and> ''size'' \<notin> set (j_commands (toJSON hello_robot))
   \<and> ''work'' \<notin> set (j_commands (toJSON hello_robot))"
proof -
  have h: "distinct (map fst (opt_rest plain_options))"
    "opt_get plain_options ''commands'' = VUndefined"
    by (simp_all add: plain_options_def opt_get_def)
  have "set (j_commands (toJSON hello_robot)) =
      {k. (\<exists>f ret. map_of (opt_rest plain_options) k = Some (VFun f ret))
          \<and> \<not> predefined emitter_members k}"
    using commands_of_constructed_controller [OF plain_options_built h(1)] h(2) by simp
  moreover have "''hello'' \<in> {k. (\<exists>f ret. map_of (opt_rest plain_options) k = Some (VFun f ret))
          \<and> \<not> predefined emitter_members k}"
    by (simp add: plain_options_def predefined_def emitter_members_def own_members_def
        robot_methods_def object_prototype_names_def)
  moreover have "''size'' \<notin> {k. (\<exists>f ret. map_of (opt_rest plain_options) k = Some (VFun f ret))
          \<and> \<not> predefined emitter_members k}"
    by (simp add: plain_options_def)
  moreover have "''work'' \<notin> {k. (\<exists>f ret. map_of (opt_rest plain_options) k = Some (VFun f ret))
          \<and> \<not> predefined emitter_members k}"
    by (simp add: predefined_def)
  ultimately show ?thesis
    using plain_options_built h by simp
qed

lemma ultron_built:
  "Robot_new None None emitter_members 1
     \<lparr>opt_connections = None, opt_devices = None,
      opt_rest = [(''name'', VStr ''Ultron''), (''work'', VFun ''work'' VUndefined)]\<rparr>
   = Built ultron False"
  by (simp add: ultron_def emitter_members_def eval_constructor)

lemma one_each_built:
  "Robot_new None None emitter_members 1
     \<lparr>opt_connections = Some [(''loopback'', conn_opts.extend loopback \<lparr>c_devices = None\<rparr>)],
      opt_devices = Some [(''ping'', ping)],
      opt_rest = [(''name'', VStr ''Ultron''), (''work'', VFun ''work'' VUndefined)]\<rparr>
   = Built one_each False"
  by (simp add: one_each_eval) (simp add: ultron_def emitter_members_def eval_constructor
      register_connection_def conn_opts.truncate_def conn_opts.extend_def eval_reg loopback_def ping_def
      initializer_adaptor_def initializer_driver_def)

text \<open>The scenario of the spec: \<^verbatim>\<open>toString()\<close> of the controller named \<^verbatim>\<open>Ultron\<close>.\<close>

lemma toString_ultron: "toString ultron = ''[Robot name='' @ quoted ''Ultron'' @ '']''"
  by (simp add: toString_def ultron_def fresh_def this_get_def)

end
